theory Spec2Isabelle
  imports Complex_Main "HOL-Library.Sublist" "HOL-Library.Multiset"
begin

section \<open>Python strings and POSIX paths\<close>

text \<open>
  Strings are \<open>char list\<close>. \<^verbatim>\<open>s.endswith(suf)\<close> is the suffix relation,
  \<^verbatim>\<open>needle in hay\<close> on strings is the contiguous-substring relation, and
  \<^verbatim>\<open>s[:-3]\<close> drops the last three characters (all of \<open>s\<close> when it is shorter).
\<close>

definition endswith :: "string \<Rightarrow> string \<Rightarrow> bool" where
  "endswith s suf = suffix suf s"

definition str_in :: "string \<Rightarrow> string \<Rightarrow> bool" where
  "str_in needle hay = sublist needle hay"

definition strip3 :: "string \<Rightarrow> string" where
  "strip3 s = take (length s - 3) s"

text \<open>
  \<^verbatim>\<open>posixpath.join(a, b)\<close>: an absolute \<open>b\<close> replaces \<open>a\<close>; otherwise the two
  are concatenated, with a separator unless \<open>a\<close> is empty or already ends with one.
\<close>

definition os_path_join :: "string \<Rightarrow> string \<Rightarrow> string" where
  "os_path_join a b =
     (if b \<noteq> [] \<and> hd b = CHR ''/'' then b
      else if a = [] \<or> last a = CHR ''/'' then a @ b
      else a @ ''/'' @ b)"

text \<open>
  \<^verbatim>\<open>posixpath.dirname(p)\<close>: the head is everything up to and including the last
  separator; trailing separators are stripped from it unless it consists of separators only.
\<close>

definition os_path_dirname :: "string \<Rightarrow> string" where
  "os_path_dirname p =
     (let head = rev (dropWhile (\<lambda>c. c \<noteq> CHR ''/'') (rev p))
      in if head \<noteq> [] \<and> \<not> (\<forall>c \<in> set head. c = CHR ''/'')
         then rev (dropWhile (\<lambda>c. c = CHR ''/'') (rev head))
         else head)"

section \<open>The file system and the interpreter state\<close>

text \<open>
  A directory is the list of its entries in the order in which the operating system
  enumerates them; that order is part of the directory's state. \<open>Unreadable\<close> is a
  directory the process may not list. \<open>fs\<close> resolves an absolute path to the node found
  there. \<open>sys_path\<close> is the interpreter's module search
  path and \<open>other\<close> stands for all remaining process-global state.
\<close>

datatype node = File | Dir "(string \<times> node) list" | Unreadable

fun is_Dir :: "node \<Rightarrow> bool" where
  "is_Dir File = False"
| "is_Dir (Dir es) = True"
| "is_Dir Unreadable = True"

record 'g world =
  fs :: "string \<rightharpoonup> node"
  sys_path :: "string list"
  other :: 'g

text \<open>
  An exception carries its text. \<open>OtherException c m\<close> is an instance of any other
  subclass \<open>c\<close> of \<open>Exception\<close>; \<open>Unprintable c e\<close> is an instance of a subclass of
  \<open>Exception\<close> whose \<^verbatim>\<open>__str__\<close> raises \<open>e\<close>.
\<close>

datatype py_exception =
    FileNotFoundError string
  | NotADirectoryError string
  | PermissionError string
  | OtherException string string
  | Unprintable string py_exception
  | SystemExit string
  | KeyboardInterrupt

text \<open>
  \<^verbatim>\<open>except Exception\<close> catches the subclasses of \<open>Exception\<close>; \<open>SystemExit\<close> and
  \<open>KeyboardInterrupt\<close> derive from \<open>BaseException\<close> only.
\<close>

fun is_Exception :: "py_exception \<Rightarrow> bool" where
  "is_Exception (FileNotFoundError m) = True"
| "is_Exception (NotADirectoryError m) = True"
| "is_Exception (PermissionError m) = True"
| "is_Exception (OtherException c m) = True"
| "is_Exception (Unprintable c e) = True"
| "is_Exception (SystemExit m) = False"
| "is_Exception KeyboardInterrupt = False"

text \<open>\<^verbatim>\<open>str(e)\<close>, which the f-string of the handler evaluates; it may itself raise.\<close>

fun exc_str :: "py_exception \<Rightarrow> py_exception + string" where
  "exc_str (FileNotFoundError m) = Inr m"
| "exc_str (NotADirectoryError m) = Inr m"
| "exc_str (PermissionError m) = Inr m"
| "exc_str (OtherException c m) = Inr m"
| "exc_str (Unprintable c e) = Inl e"
| "exc_str (SystemExit m) = Inr m"
| "exc_str KeyboardInterrupt = Inr []"

definition os_path_exists :: "'g world \<Rightarrow> string \<Rightarrow> bool" where
  "os_path_exists w p = (fs w p \<noteq> None)"

definition os_listdir :: "'g world \<Rightarrow> string \<Rightarrow> py_exception + string list" where
  "os_listdir w p =
     (case fs w p of
        None \<Rightarrow> Inl (FileNotFoundError p)
      | Some File \<Rightarrow> Inl (NotADirectoryError p)
      | Some Unreadable \<Rightarrow> Inl (PermissionError p)
      | Some (Dir es) \<Rightarrow> Inr (map fst es))"

text \<open>
  \<^verbatim>\<open>os.walk(top)\<close>, top-down: the triple of \<open>top\<close> itself (its sub-directory names
  and its other entries, each in enumeration order), then the walk of every sub-directory
  in that order. A \<open>top\<close> that cannot be scanned yields nothing.
\<close>

fun os_walk_node :: "string \<Rightarrow> node \<Rightarrow> (string \<times> string list \<times> string list) list" where
  "os_walk_node top_dir File = []"
| "os_walk_node top_dir Unreadable = []"
| "os_walk_node top_dir (Dir es) =
     (top_dir, map fst (filter (\<lambda>ne. is_Dir (snd ne)) es),
           map fst (filter (\<lambda>ne. \<not> is_Dir (snd ne)) es)) #
     concat (map (\<lambda>ne. if is_Dir (snd ne) then os_walk_node (os_path_join top_dir (fst ne)) (snd ne)
                        else []) es)"

definition os_walk :: "'g world \<Rightarrow> string \<Rightarrow> (string \<times> string list \<times> string list) list" where
  "os_walk w top_dir = (case fs w top_dir of None \<Rightarrow> [] | Some nd \<Rightarrow> os_walk_node top_dir nd)"

section \<open>my\_model.py: discovery of the model file and the data file\<close>

text \<open>
  \<open>abs_file\<close> is \<^verbatim>\<open>os.path.abspath(__file__)\<close> of my\_model.py. The two searches of
  the source are the same loop with a different extension, written once here with the
  extension as an argument.
\<close>

definition exclusion_marker :: string where
  "exclusion_marker = ''LSTM_outside_example''"

definition miner_model_dir :: "string \<Rightarrow> string" where
  "miner_model_dir abs_file = os_path_dirname (os_path_dirname abs_file)"

fun files_loop :: "string \<Rightarrow> string \<Rightarrow> string list \<Rightarrow> string list \<Rightarrow> string list" where
  "files_loop ext root_dir [] found = found"
| "files_loop ext root_dir (file # files) found =
     files_loop ext root_dir files
       (if endswith file ext then found @ [os_path_join root_dir file] else found)"

fun walk_loop :: "string \<Rightarrow> (string \<times> string list \<times> string list) list \<Rightarrow> string list \<Rightarrow> string list" where
  "walk_loop ext [] found = found"
| "walk_loop ext ((root_dir, dirs, files) # rest) found =
     (if str_in exclusion_marker root_dir then walk_loop ext rest found
      else walk_loop ext rest (files_loop ext root_dir files found))"

definition model_files :: "string \<Rightarrow> 'g world \<Rightarrow> string list" where
  "model_files abs_file w = walk_loop ''.h5'' (os_walk w (miner_model_dir abs_file)) []"

definition csv_files :: "string \<Rightarrow> 'g world \<Rightarrow> string list" where
  "csv_files abs_file w = walk_loop ''.csv'' (os_walk w (miner_model_dir abs_file)) []"

definition no_h5_message :: "string \<Rightarrow> string" where
  "no_h5_message d =
     ''No .h5 model files found in '' @ d @ ''.'' @ [CHR 0x0A] @
     ''Please save your model as a .h5 file in the miner_model directory, '' @
     ''or update model_path below to point to your model file.''"

definition no_csv_message :: "string \<Rightarrow> string" where
  "no_csv_message d =
     ''No .csv data files found in '' @ d @ ''.'' @ [CHR 0x0A] @
     ''Please save your data as a .csv file in the miner_model directory, '' @
     ''or update data_path below to point to your data file.''"

text \<open>
  Section 1 of the module raises when the list is empty and otherwise takes element 0.
\<close>

definition model_path :: "string \<Rightarrow> 'g world \<Rightarrow> py_exception + string" where
  "model_path abs_file w =
     (if model_files abs_file w = []
      then Inl (FileNotFoundError (no_h5_message (miner_model_dir abs_file)))
      else Inr (model_files abs_file w ! 0))"

text \<open>
  The module runs from top to bottom. Section 2 is reached only when section 1 did not raise
  and \<^verbatim>\<open>load_model(model_path)\<close> returned; \<open>load_model\<close> is code of Keras and is a
  parameter. \<open>data_path\<close> is the value the module binds to that name, or the exception
  that ended the module before it could.
\<close>

definition data_path ::
  "(string \<Rightarrow> py_exception + 'm) \<Rightarrow> string \<Rightarrow> 'g world \<Rightarrow> py_exception + string" where
  "data_path load_model abs_file w =
     (case model_path abs_file w of
        Inl e \<Rightarrow> Inl e
      | Inr path \<Rightarrow>
          (case load_model path of
             Inl e \<Rightarrow> Inl e
           | Inr model \<Rightarrow>
               if csv_files abs_file w = []
               then Inl (FileNotFoundError (no_csv_message (miner_model_dir abs_file)))
               else Inr (csv_files abs_file w ! 0)))"

section \<open>model\_loader.py: discovery and loading of the implementation module\<close>

text \<open>
  What the loader does to the outside is recorded as a list of events: the messages it
  hands to the logger, by level, and its calls into \<open>importlib\<close>.
\<close>

datatype event =
    LogError string
  | LogInfo string
  | LogSuccess string
  | LogDebug string
  | SpecFromFileLocation string string
  | ExecModule string string

text \<open>
  The code the loader calls but does not contain is a parameter:
  \<^item> \<open>spec_from_file_location name path\<close> tells whether \<open>importlib\<close> produced a spec
    with a loader;
  \<^item> \<open>exec_module name path w\<close> runs the module's top-level code in the world \<open>w\<close>: it
    raises, or completes with the attributes the module then has, and leaves a world;
  \<^item> \<open>FunctionBasedModel v\<close> is the adapter's constructor, which may raise;
  \<^item> \<open>format_exc e\<close> is the text of the traceback.
\<close>

record ('v, 'a, 'g) env =
  spec_from_file_location :: "string \<Rightarrow> string \<Rightarrow> bool"
  exec_module :: "string \<Rightarrow> string \<Rightarrow> 'g world \<Rightarrow> (py_exception + (string \<rightharpoonup> 'v)) \<times> 'g world"
  FunctionBasedModel :: "'v \<Rightarrow> py_exception + 'a"
  format_exc :: "py_exception \<Rightarrow> string"

text \<open>
  A run returns a value or lets an exception escape (\<open>Inl\<close>), emits events and leaves
  a world.
\<close>

type_synonym ('r, 'g) run = "(py_exception + 'r) \<times> event list \<times> 'g world"

definition excluded_files :: "string list" where
  "excluded_files = [''__init__.py'', ''helpers.py'']"

fun model_files_loop :: "string list \<Rightarrow> string list \<Rightarrow> string list" where
  "model_files_loop [] found = found"
| "model_files_loop (file # rest) found =
     model_files_loop rest
       (if endswith file ''.py'' \<and> file \<notin> set excluded_files then found @ [file] else found)"

definition no_student_model_message :: string where
  "no_student_model_message =
     ''No student model found in student_models/ folder.'' @ [CHR 0x0A] @
     ''The default my_model.py should be present. '' @
     ''If you deleted it, restore it from the repository.''"

definition no_predict_message :: "string \<Rightarrow> string" where
  "no_predict_message model_file =
     ''Model file '' @ model_file @ '' does not have a predict() function.'' @ [CHR 0x0A] @
     ''Please make sure you've filled in SECTION 3 of the template.''"

text \<open>
  The statement that puts the parent of the student\_models directory on the module search
  path: at the front, and only when it is not there yet.
\<close>

definition insert_parent_dir :: "string \<Rightarrow> 'g world \<Rightarrow> 'g world" where
  "insert_parent_dir parent_dir w =
     (if parent_dir \<notin> set (sys_path w) then w\<lparr>sys_path := parent_dir # sys_path w\<rparr> else w)"

text \<open>
  The body of the \<^verbatim>\<open>try\<close> block. \<open>Inl e\<close> is an exception raised inside the block,
  before the handler has seen it.
\<close>

definition try_body ::
  "('v, 'a, 'g) env \<Rightarrow> string \<Rightarrow> string \<Rightarrow> string \<Rightarrow> 'g world \<Rightarrow> ('a option, 'g) run" where
  "try_body env student_models_dir model_file module_name w =
     (let file_path = os_path_join student_models_dir model_file;
          name = ''miner_model.student_models.'' @ module_name
      in if \<not> spec_from_file_location env name file_path
         then (Inr None,
               [SpecFromFileLocation name file_path,
                LogError (''Could not create spec for '' @ model_file)], w)
         else
           let parent_dir = os_path_dirname student_models_dir;
               w1 = insert_parent_dir parent_dir w;
               calls = [SpecFromFileLocation name file_path, ExecModule name file_path]
           in case exec_module env name file_path w1 of
                (Inl e, w2) \<Rightarrow> (Inl e, calls, w2)
              | (Inr attrs, w2) \<Rightarrow>
                  (case attrs ''predict'' of
                     None \<Rightarrow> (Inr None, calls @ [LogError (no_predict_message model_file)], w2)
                   | Some predict \<Rightarrow>
                       (case FunctionBasedModel env predict of
                          Inl e \<Rightarrow> (Inl e, calls, w2)
                        | Inr model \<Rightarrow>
                            (Inr (Some model),
                             calls @ [LogSuccess (''Successfully loaded model from '' @ model_file)],
                             w2))))"

text \<open>
  \<open>abs_file\<close> is \<^verbatim>\<open>os.path.abspath(__file__)\<close> of model\_loader.py. The directory
  listing and the selection run outside the \<^verbatim>\<open>try\<close> block, so an exception of
  \<^verbatim>\<open>os.listdir\<close> escapes; the handler catches the subclasses of \<open>Exception\<close> only,
  and an exception raised while it formats its message escapes as well.
\<close>

definition load_student_model :: "('v, 'a, 'g) env \<Rightarrow> string \<Rightarrow> 'g world \<Rightarrow> ('a option, 'g) run" where
  "load_student_model env abs_file w =
     (let current_dir = os_path_dirname (os_path_dirname abs_file);
          student_models_dir = os_path_join current_dir ''student_models''
      in if \<not> os_path_exists w student_models_dir
         then (Inr None,
               [LogError (''Student models directory not found: '' @ student_models_dir)], w)
         else
           case os_listdir w student_models_dir of
             Inl e \<Rightarrow> (Inl e, [], w)
           | Inr listing \<Rightarrow>
               let found = model_files_loop listing []
               in if found = [] then (Inr None, [LogError no_student_model_message], w)
                  else
                    let model_file = found ! 0;
                        module_name = strip3 model_file;
                        info = LogInfo (''Found student model: '' @ model_file)
                    in (case try_body env student_models_dir model_file module_name w of
                          (Inr r, evs, w') \<Rightarrow> (Inr r, info # evs, w')
                        | (Inl e, evs, w') \<Rightarrow>
                            if is_Exception e
                            then (case exc_str e of
                                    Inl e' \<Rightarrow> (Inl e', info # evs, w')
                                  | Inr text \<Rightarrow>
                                      (Inr None,
                                       info # evs @
                                       [LogError (''Failed to load model from '' @ model_file @
                                                  '': '' @ text),
                                        LogDebug (format_exc env e)], w'))
                            else (Inl e, info # evs, w')))"

fun models_loop :: "string list \<Rightarrow> string list \<Rightarrow> string list" where
  "models_loop [] models = models"
| "models_loop (file # rest) models =
     models_loop rest
       (if endswith file ''.py'' \<and> file \<notin> set excluded_files then models @ [file] else models)"

definition list_available_models :: "string \<Rightarrow> 'g world \<Rightarrow> py_exception + string list" where
  "list_available_models abs_file w =
     (let current_dir = os_path_dirname (os_path_dirname abs_file);
          student_models_dir = os_path_join current_dir ''student_models''
      in if \<not> os_path_exists w student_models_dir then Inr []
         else case os_listdir w student_models_dir of
                Inl e \<Rightarrow> Inl e
              | Inr listing \<Rightarrow> Inr (models_loop listing []))"

section \<open>my\_model.py: the predict function\<close>

datatype prediction_error = PredictionError string | ConfigurationError string

text \<open>
  Modelled from the spec: \<^verbatim>\<open>predict_1hour_ahead\<close> of helpers.py, which \<^verbatim>\<open>predict\<close>
  calls, is not among the sources. Following the interval policy of the specification, the
  point forecast is what the loaded model infers from the loaded data for the timestamp
  (the parameter \<open>infer\<close>, failing with a prediction error on a timestamp that is malformed
  or outside the data), and the interval is the forecast plus and minus a fixed half-width under
  \<^verbatim>\<open>'fixed'\<close> and the forecast plus and minus \<open>z\<close> standard errors under \<^verbatim>\<open>'std'\<close>, which fails
  without a standard error. Numbers are reals; floating-point rounding is not modelled.
\<close>

definition predict_1hour_ahead ::
  "('m \<Rightarrow> 'd \<Rightarrow> string \<Rightarrow> nat \<Rightarrow> prediction_error + real) \<Rightarrow> real \<Rightarrow> real \<Rightarrow>
   'm \<Rightarrow> 'd \<Rightarrow> string \<Rightarrow> nat \<Rightarrow> string \<Rightarrow> real option \<Rightarrow>
   prediction_error + real \<times> (real \<times> real)" where
  "predict_1hour_ahead infer half_width z model data timestamp n_steps interval_method interval_std =
     (if interval_method = ''fixed'' then
        (case infer model data timestamp n_steps of
           Inl e \<Rightarrow> Inl e
         | Inr p \<Rightarrow> Inr (p, (p - half_width, p + half_width)))
      else if interval_method = ''std'' then
        (case interval_std of
           None \<Rightarrow> Inl (ConfigurationError ''std'')
         | Some sigma \<Rightarrow>
             (case infer model data timestamp n_steps of
                Inl e \<Rightarrow> Inl e
              | Inr p \<Rightarrow> Inr (p, (p - z * sigma, p + z * sigma))))
      else Inl (ConfigurationError interval_method))"

text \<open>The function of the source: twelve steps, the fixed policy, no standard error.\<close>

definition predict ::
  "('m \<Rightarrow> 'd \<Rightarrow> string \<Rightarrow> nat \<Rightarrow> prediction_error + real) \<Rightarrow> real \<Rightarrow> real \<Rightarrow>
   'm \<Rightarrow> 'd \<Rightarrow> string \<Rightarrow> prediction_error + real \<times> (real \<times> real)" where
  "predict infer half_width z model data timestamp =
     predict_1hour_ahead infer half_width z model data timestamp 12 ''fixed'' None"

section \<open>Observations on a run\<close>

text \<open>
  The student\_models directory both functions of model\_loader.py compute, and the loads
  a run attempted: the module names and file paths it handed to \<open>importlib\<close>.
\<close>

definition student_models_dir :: "string \<Rightarrow> string" where
  "student_models_dir abs_file =
     os_path_join (os_path_dirname (os_path_dirname abs_file)) ''student_models''"

fun attempted :: "event \<Rightarrow> (string \<times> string) list" where
  "attempted (SpecFromFileLocation n p) = [(n, p)]"
| "attempted e = []"

definition attempted_loads :: "event list \<Rightarrow> (string \<times> string) list" where
  "attempted_loads evs = concat (map attempted evs)"

section \<open>Sample directory states\<close>

text \<open>
  The package lives in /srv/miner\_model. \<open>sample_world\<close> is the layout the package
  ships with, plus a second student file; the other worlds vary it.
\<close>

definition loader_file :: string where
  "loader_file = ''/srv/miner_model/utils/model_loader.py''"

definition my_model_file :: string where
  "my_model_file = ''/srv/miner_model/student_models/my_model.py''"

definition sample_student_models :: node where
  "sample_student_models =
     Dir [(''__init__.py'', File), (''helpers.py'', File), (''my_model.py'', File),
          (''alt.py'', File)]"

definition sample_example_dir :: node where
  "sample_example_dir = Dir [(''lstm_model.h5'', File), (''prices.csv'', File)]"

definition sample_world :: "unit world" where
  "sample_world =
     \<lparr> fs = [''/srv/miner_model'' \<mapsto>
                Dir [(''LSTM_outside_example'', sample_example_dir),
                     (''student_models'', sample_student_models),
                     (''modelA.h5'', File), (''data.csv'', File),
                     (''backup'', Dir [(''old_model.h5'', File), (''old_data.csv'', File)])],
              ''/srv/miner_model/student_models'' \<mapsto> sample_student_models],
       sys_path = [''/usr/lib/python3''], other = () \<rparr>"

definition sample_env :: "(nat, nat, unit) env" where
  "sample_env =
     \<lparr> spec_from_file_location = (\<lambda>n p. True),
       exec_module = (\<lambda>n p w. (Inr [''predict'' \<mapsto> 7], w)),
       FunctionBasedModel = (\<lambda>v. Inr v),
       format_exc = (\<lambda>e. ''Traceback (most recent call last)'') \<rparr>"

definition reserved_only_world :: "unit world" where
  "reserved_only_world =
     \<lparr> fs = [''/srv/miner_model/student_models'' \<mapsto>
                Dir [(''__init__.py'', File), (''helpers.py'', File), (''README.md'', File)]],
       sys_path = [''/usr/lib/python3''], other = () \<rparr>"

definition marker_named_world :: "unit world" where
  "marker_named_world =
     \<lparr> fs = [''/srv/miner_model'' \<mapsto>
                Dir [(''LSTM_outside_example.h5'', File),
                     (''LSTM_outside_example'', sample_example_dir)]],
       sys_path = [''/usr/lib/python3''], other = () \<rparr>"

definition excluded_only_world :: "unit world" where
  "excluded_only_world =
     \<lparr> fs = [''/srv/miner_model'' \<mapsto>
                Dir [(''LSTM_outside_example'', sample_example_dir),
                     (''student_models'', sample_student_models)],
              ''/srv/miner_model/student_models'' \<mapsto> sample_student_models],
       sys_path = [''/usr/lib/python3''], other = () \<rparr>"

definition no_predict_env :: "(nat, nat, unit) env" where
  "no_predict_env = sample_env\<lparr>exec_module := (\<lambda>n p w. (Inr [''model'' \<mapsto> 1], w))\<rparr>"


definition failing_env :: "(nat, nat, unit) env" where
  "failing_env =
     sample_env\<lparr>exec_module :=
       (\<lambda>n p w. (Inl (FileNotFoundError (no_h5_message ''/srv/miner_model'')), w))\<rparr>"

definition keras_ok :: "string \<Rightarrow> py_exception + unit" where
  "keras_ok path = Inr ()"

definition csv_excluded_world :: "unit world" where
  "csv_excluded_world =
     \<lparr> fs = [''/srv/miner_model'' \<mapsto>
                Dir [(''LSTM_outside_example'', sample_example_dir), (''modelA.h5'', File)]],
       sys_path = [''/usr/lib/python3''], other = () \<rparr>"

section \<open>The same tree in another enumeration order\<close>










section \<open>The loops as filters\<close>

lemma model_files_loop_eq:
  "model_files_loop listing found =
     found @ filter (\<lambda>f. endswith f ''.py'' \<and> f \<notin> set excluded_files) listing"
  by (induction listing arbitrary: found) auto

lemma models_loop_eq:
  "models_loop listing models =
     models @ filter (\<lambda>f. endswith f ''.py'' \<and> f \<notin> set excluded_files) listing"
  by (induction listing arbitrary: models) auto

lemma files_loop_eq:
  "files_loop ext root_dir files found =
     found @ map (os_path_join root_dir) (filter (\<lambda>f. endswith f ext) files)"
  by (induction files arbitrary: found) auto

lemma walk_loop_eq:
  "walk_loop ext triples found =
     found @ concat (map (\<lambda>(root_dir, dirs, files).
        if str_in exclusion_marker root_dir then []
        else map (os_path_join root_dir) (filter (\<lambda>f. endswith f ext) files)) triples)"
  by (induction ext triples found rule: walk_loop.induct) (auto simp: files_loop_eq)

lemma sample_student_models_dir:
  "student_models_dir loader_file = ''/srv/miner_model/student_models''"
  by (simp add: student_models_dir_def loader_file_def os_path_dirname_def os_path_join_def)

lemma sample_miner_model_dir: "miner_model_dir my_model_file = ''/srv/miner_model''"
  by (simp add: miner_model_dir_def my_model_file_def os_path_dirname_def)

section \<open>The interval of a prediction\<close>

text \<open>
  C3. For every timestamp the model can forecast (the inference returns a point forecast),
  \<open>predict\<close> returns that forecast with an interval \<open>(low, high)\<close> such that
  \<open>low \<le> forecast \<le> high\<close>; the half-width of the fixed policy is non-negative.
\<close>

theorem predict_interval_brackets_forecast:
  assumes "0 \<le> half_width" and "infer model data t 12 = Inr p"
  shows "\<exists>low high. predict infer half_width z model data t = Inr (p, (low, high))
           \<and> low \<le> p \<and> p \<le> high"
  using assms by (simp add: predict_def predict_1hour_ahead_def)

theorem predict_interval_brackets_forecast_witness:
  "(0::real) \<le> 1 / 100
   \<and> (\<lambda>m d t n. Inr 7.25) () () ''2024-01-15T10:30:00+00:00'' (12::nat)
       = (Inr (7.25::real) :: prediction_error + real)
   \<and> (\<exists>low high. predict (\<lambda>m d t n. Inr 7.25) (1 / 100) 1.96 () () ''2024-01-15T10:30:00+00:00''
          = Inr (7.25, (low, high)) \<and> low \<le> 7.25 \<and> 7.25 \<le> high)"
  using predict_interval_brackets_forecast [of "1 / 100" "\<lambda>m d t n. Inr 7.25" "()" "()"
      "''2024-01-15T10:30:00+00:00''" "7.25" "1.96"]
  by simp

section \<open>Discovery and loading\<close>

lemma attempted_loads_simps:
  "attempted_loads [] = []"
  "attempted_loads (e # evs) = attempted e @ attempted_loads evs"
  "attempted_loads (evs @ evs') = attempted_loads evs @ attempted_loads evs'"
  by (simp_all add: attempted_loads_def)

lemma try_body_attempted:
  "attempted_loads (fst (snd (try_body env d f m w))) =
     [(''miner_model.student_models.'' @ m, os_path_join d f)]"
  by (auto simp: try_body_def attempted_loads_simps Let_def
           split: prod.splits sum.splits option.splits)

lemma try_body_no_info: "LogInfo m \<notin> set (fst (snd (try_body env d f md w)))"
  by (auto simp: try_body_def Let_def split: prod.splits sum.splits option.splits)

lemma load_attempted:
  "attempted_loads (fst (snd (load_student_model env abs_file w))) =
     (case os_listdir w (student_models_dir abs_file) of
        Inl e \<Rightarrow> []
      | Inr listing \<Rightarrow>
          if model_files_loop listing [] = [] then []
          else [(''miner_model.student_models.'' @ strip3 (model_files_loop listing [] ! 0),
                 os_path_join (student_models_dir abs_file) (model_files_loop listing [] ! 0))])"
proof (cases "os_listdir w (student_models_dir abs_file)")
  case (Inl e)
  then show ?thesis
    by (auto simp: load_student_model_def student_models_dir_def Let_def attempted_loads_simps)
next
  case (Inr listing)
  then have ex: "os_path_exists w (student_models_dir abs_file)"
    by (auto simp: os_listdir_def os_path_exists_def split: option.splits)
  show ?thesis
  proof (cases "model_files_loop listing [] = []")
    case True
    with Inr ex show ?thesis
      by (simp add: load_student_model_def student_models_dir_def [symmetric] Let_def
            attempted_loads_simps)
  next
    case False
    obtain r evs w' where tb: "try_body env (student_models_dir abs_file)
        (model_files_loop listing [] ! 0) (strip3 (model_files_loop listing [] ! 0)) w = (r, evs, w')"
      by (metis prod_cases3)
    with try_body_attempted [of env "student_models_dir abs_file"
        "model_files_loop listing [] ! 0" "strip3 (model_files_loop listing [] ! 0)" w]
    have "attempted_loads evs = [(''miner_model.student_models.'' @ strip3 (model_files_loop listing [] ! 0),
                 os_path_join (student_models_dir abs_file) (model_files_loop listing [] ! 0))]"
      by simp
    with Inr ex False tb show ?thesis
      by (auto simp: load_student_model_def student_models_dir_def [symmetric] Let_def
            attempted_loads_simps split: sum.splits)
  qed
qed

lemma load_info:
  assumes "LogInfo m \<in> set (fst (snd (load_student_model env abs_file w)))"
  shows "\<exists>listing. os_listdir w (student_models_dir abs_file) = Inr listing
           \<and> model_files_loop listing [] \<noteq> []
           \<and> m = ''Found student model: '' @ model_files_loop listing [] ! 0"
proof (cases "os_listdir w (student_models_dir abs_file)")
  case (Inl e)
  with assms show ?thesis
    by (auto simp: load_student_model_def student_models_dir_def [symmetric] Let_def
          split: if_splits)
next
  case (Inr listing)
  show ?thesis
  proof (cases "model_files_loop listing [] = []")
    case True
    with Inr assms show ?thesis
      by (auto simp: load_student_model_def student_models_dir_def [symmetric] Let_def
          split: if_splits)
  next
    case False
    obtain r evs w' where tb: "try_body env (student_models_dir abs_file)
        (model_files_loop listing [] ! 0) (strip3 (model_files_loop listing [] ! 0)) w = (r, evs, w')"
      by (metis prod_cases3)
    with try_body_no_info [of m env "student_models_dir abs_file"
        "model_files_loop listing [] ! 0" "strip3 (model_files_loop listing [] ! 0)" w]
    have "LogInfo m \<notin> set evs" by simp
    with Inr False tb assms show ?thesis
      by (auto simp: load_student_model_def student_models_dir_def [symmetric] Let_def
          split: if_splits sum.splits)
  qed
qed

lemma candidate_not_reserved:
  "f \<in> set (model_files_loop listing []) \<Longrightarrow> f \<noteq> ''__init__.py'' \<and> f \<noteq> ''helpers.py''"
  by (auto simp: model_files_loop_eq excluded_files_def)

text \<open>
  C8. The reserved names \<^verbatim>\<open>__init__.py\<close> and \<^verbatim>\<open>helpers.py\<close> are never candidates:
  whatever the directory lists, the candidate list of \<open>load_student_model\<close> does not
  contain them, the list \<open>list_available_models\<close> returns does not contain them, and the
  file \<open>load_student_model\<close> announces as found is neither of them. Only names are
  inspected, so the content of the files plays no part.
\<close>

theorem reserved_names_never_candidates:
  "''__init__.py'' \<notin> set (model_files_loop listing [])
   \<and> ''helpers.py'' \<notin> set (model_files_loop listing [])
   \<and> (\<forall>models. list_available_models abs_file w = Inr models \<longrightarrow>
         ''__init__.py'' \<notin> set models \<and> ''helpers.py'' \<notin> set models)
   \<and> (\<forall>f. LogInfo (''Found student model: '' @ f)
             \<in> set (fst (snd (load_student_model env abs_file w))) \<longrightarrow>
         f \<noteq> ''__init__.py'' \<and> f \<noteq> ''helpers.py'')"
proof (intro conjI allI impI)
  show "''__init__.py'' \<notin> set (model_files_loop listing [])"
    using candidate_not_reserved [of "''__init__.py''" listing] by auto
  show "''helpers.py'' \<notin> set (model_files_loop listing [])"
    using candidate_not_reserved [of "''helpers.py''" listing] by auto
next
  fix models assume "list_available_models abs_file w = Inr models"
  then have "models = [] \<or> (\<exists>l. models = models_loop l [])"
    by (auto simp: list_available_models_def Let_def split: if_splits sum.splits)
  then have "set models \<inter> set excluded_files = {}"
    by (auto simp: models_loop_eq)
  then show "''__init__.py'' \<notin> set models" and "''helpers.py'' \<notin> set models"
    by (auto simp: excluded_files_def)
next
  fix f assume "LogInfo (''Found student model: '' @ f)
             \<in> set (fst (snd (load_student_model env abs_file w)))"
  from load_info [OF this] obtain listing where
    ne: "model_files_loop listing [] \<noteq> []" and f: "f = model_files_loop listing [] ! 0"
    by auto
  from ne have "model_files_loop listing [] ! 0 \<in> set (model_files_loop listing [])"
    by simp
  with f candidate_not_reserved [of f listing]
  have "f \<noteq> ''__init__.py'' \<and> f \<noteq> ''helpers.py''"
    by simp
  then show "f \<noteq> ''__init__.py''" and "f \<noteq> ''helpers.py''"
    by simp_all
qed

theorem reserved_names_never_candidates_witness:
  "list_available_models loader_file sample_world = Inr [''my_model.py'', ''alt.py'']
   \<and> LogInfo (''Found student model: '' @ ''my_model.py'')
        \<in> set (fst (snd (load_student_model sample_env loader_file sample_world)))
   \<and> ''__init__.py'' \<notin> set [''my_model.py'', ''alt.py'']
   \<and> ''helpers.py'' \<notin> set [''my_model.py'', ''alt.py'']
   \<and> ''my_model.py'' \<noteq> ''__init__.py'' \<and> ''my_model.py'' \<noteq> ''helpers.py''"
proof -
  have a: "list_available_models loader_file sample_world = Inr [''my_model.py'', ''alt.py'']"
    by code_simp
  have b: "LogInfo (''Found student model: '' @ ''my_model.py'')
        \<in> set (fst (snd (load_student_model sample_env loader_file sample_world)))"
    by code_simp
  from a b reserved_names_never_candidates [of "[]" loader_file sample_world sample_env]
  show ?thesis by blast
qed

text \<open>
  C10. When the student\_models directory exists as a directory, \<open>list_available_models\<close>
  returns a list, and the loads \<open>load_student_model\<close> attempts are exactly one load of the
  first element of that list when the list is non-empty, and none when it is empty: a load
  is attempted if and only if the list is non-empty.
\<close>

theorem load_selects_first_listed:
  assumes "fs w (student_models_dir abs_file) = Some (Dir es)"
  shows "\<exists>models. list_available_models abs_file w = Inr models
           \<and> attempted_loads (fst (snd (load_student_model env abs_file w))) =
               (if models = [] then []
                else [(''miner_model.student_models.'' @ strip3 (models ! 0),
                       os_path_join (student_models_dir abs_file) (models ! 0))])
           \<and> (attempted_loads (fst (snd (load_student_model env abs_file w))) \<noteq> []
                \<longleftrightarrow> models \<noteq> [])"
proof -
  from assms have l: "os_listdir w (student_models_dir abs_file) = Inr (map fst es)"
    by (simp add: os_listdir_def)
  from assms have "list_available_models abs_file w = Inr (models_loop (map fst es) [])"
    by (simp add: list_available_models_def student_models_dir_def [symmetric] Let_def
          os_path_exists_def os_listdir_def)
  moreover have "models_loop (map fst es) [] = model_files_loop (map fst es) []"
    by (simp add: models_loop_eq model_files_loop_eq)
  ultimately show ?thesis
    using load_attempted [of env abs_file w] l by simp
qed

theorem load_selects_first_listed_witness:
  "fs sample_world (student_models_dir loader_file) = Some sample_student_models
   \<and> list_available_models loader_file sample_world = Inr [''my_model.py'', ''alt.py'']
   \<and> attempted_loads (fst (snd (load_student_model sample_env loader_file sample_world))) =
        [(''miner_model.student_models.my_model'', ''/srv/miner_model/student_models/my_model.py'')]"
proof -
  have a: "fs sample_world (student_models_dir loader_file) = Some sample_student_models"
    by (simp add: sample_student_models_dir sample_world_def)
  have b: "list_available_models loader_file sample_world = Inr [''my_model.py'', ''alt.py'']"
    by code_simp
  from load_selects_first_listed [OF a [unfolded sample_student_models_def], of sample_env] b
  have "attempted_loads (fst (snd (load_student_model sample_env loader_file sample_world))) =
      [(''miner_model.student_models.'' @ strip3 ''my_model.py'',
        os_path_join (student_models_dir loader_file) ''my_model.py'')]"
    by simp
  with a b show ?thesis
    by (simp add: sample_student_models_dir strip3_def os_path_join_def)
qed

text \<open>
  C6. When the student\_models directory lists no name that ends with \<^verbatim>\<open>.py\<close> other
  than the reserved ones, \<open>load_student_model\<close> returns no adapter, reports exactly one
  error, whose message says that no student model was found in the student\_models folder, and
  leaves the world as it was.
\<close>

theorem no_candidates_reported:
  assumes "fs w (student_models_dir abs_file) = Some (Dir es)"
    and "\<forall>f \<in> set (map fst es). endswith f ''.py'' \<longrightarrow> f \<in> set excluded_files"
  shows "load_student_model env abs_file w = (Inr None, [LogError no_student_model_message], w)
         \<and> prefix ''No student model found in student_models/ folder.'' no_student_model_message"
proof -
  from assms(2) have "model_files_loop (map fst es) [] = []"
    by (auto simp: model_files_loop_eq filter_empty_conv)
  with assms(1) show ?thesis
    by (simp add: load_student_model_def student_models_dir_def [symmetric] Let_def
          os_path_exists_def os_listdir_def no_student_model_message_def)
qed

theorem no_candidates_reported_witness:
  "fs reserved_only_world (student_models_dir loader_file) =
      Some (Dir [(''__init__.py'', File), (''helpers.py'', File), (''README.md'', File)])
   \<and> load_student_model sample_env loader_file reserved_only_world =
        (Inr None, [LogError no_student_model_message], reserved_only_world)"
proof -
  have a: "fs reserved_only_world (student_models_dir loader_file) =
      Some (Dir [(''__init__.py'', File), (''helpers.py'', File), (''README.md'', File)])"
    by (simp add: sample_student_models_dir reserved_only_world_def)
  have b: "\<forall>f \<in> set (map fst [(''__init__.py'', File), (''helpers.py'', File), (''README.md'', File)]).
          endswith f ''.py'' \<longrightarrow> f \<in> set excluded_files"
    by (simp add: excluded_files_def endswith_def suffix_to_prefix)
  from no_candidates_reported [OF a b, of sample_env] a show ?thesis
    by simp
qed

lemma find_first_of_filter:
  "filter P xs \<noteq> [] \<Longrightarrow> List.find P xs = Some (filter P xs ! 0)"
  by (induction xs) auto

lemma load_attempted_length:
  "length (attempted_loads (fst (snd (load_student_model env abs_file w)))) \<le> 1"
  by (simp add: load_attempted split: sum.splits)

lemma walk_loop_member:
  assumes "p \<in> set (walk_loop ext triples [])"
  shows "\<exists>root_dir dirs files f. (root_dir, dirs, files) \<in> set triples \<and> f \<in> set files
           \<and> endswith f ext \<and> \<not> str_in exclusion_marker root_dir
           \<and> p = os_path_join root_dir f"
  using assms by (auto simp: walk_loop_eq split: if_splits)

lemma walk_loop_all_excluded:
  assumes "\<forall>(root_dir, dirs, files) \<in> set triples.
             \<forall>f \<in> set files. endswith f ext \<longrightarrow> str_in exclusion_marker root_dir"
  shows "walk_loop ext triples [] = []"
  using assms by (auto simp: walk_loop_eq filter_empty_conv)

text \<open>
  The test for the marker is made on the directory the walk is in, not on the path of the
  file: a model file whose own name contains the marker, lying in the package directory
  itself, is selected, and its path contains the marker.
\<close>

theorem marker_in_file_name_is_selected:
  "model_path my_model_file marker_named_world = Inr ''/srv/miner_model/LSTM_outside_example.h5''
   \<and> str_in exclusion_marker ''/srv/miner_model/LSTM_outside_example.h5''"
  by code_simp

lemma load_unfold:
  assumes "os_listdir w (student_models_dir lf) = Inr listing"
    and "model_files_loop listing [] \<noteq> []"
    and "try_body env (student_models_dir lf) (model_files_loop listing [] ! 0)
           (strip3 (model_files_loop listing [] ! 0)) w = (r, evs, w')"
  shows "load_student_model env lf w =
     (case r of
        Inr a \<Rightarrow> (Inr a, LogInfo (''Found student model: '' @ model_files_loop listing [] ! 0) # evs, w')
      | Inl e \<Rightarrow>
          if is_Exception e
          then (case exc_str e of
                  Inl e' \<Rightarrow>
                    (Inl e', LogInfo (''Found student model: '' @ model_files_loop listing [] ! 0) # evs, w')
                | Inr text \<Rightarrow>
                    (Inr None,
                     LogInfo (''Found student model: '' @ model_files_loop listing [] ! 0) # evs @
                     [LogError (''Failed to load model from '' @ model_files_loop listing [] ! 0 @ '': ''
                                 @ text),
                      LogDebug (format_exc env e)], w'))
          else (Inl e, LogInfo (''Found student model: '' @ model_files_loop listing [] ! 0) # evs, w'))"
proof -
  from assms(1) have "os_path_exists w (student_models_dir lf)"
    by (auto simp: os_listdir_def os_path_exists_def split: option.splits)
  with assms show ?thesis
    by (simp add: load_student_model_def student_models_dir_def [symmetric] Let_def
          split: sum.splits)
qed

text \<open>
  C4. When the selected implementation module loads (importlib yields a spec and the module's
  code completes) but the module has no attribute \<^verbatim>\<open>predict\<close>, \<open>load_student_model\<close>
  returns no adapter, and the last thing it does is to report the error that the model file
  has no predict function; the adapter's constructor is not called.
\<close>

theorem missing_entry_point_reported:
  assumes "os_listdir w (student_models_dir lf) = Inr listing"
    and "model_files_loop listing [] \<noteq> []"
    and "model_file = model_files_loop listing [] ! 0"
    and "name = ''miner_model.student_models.'' @ strip3 model_file"
    and "file_path = os_path_join (student_models_dir lf) model_file"
    and "spec_from_file_location env name file_path"
    and "exec_module env name file_path
           (insert_parent_dir (os_path_dirname (student_models_dir lf)) w) = (Inr attrs, w2)"
    and "attrs ''predict'' = None"
  shows "load_student_model env lf w =
           (Inr None,
            [LogInfo (''Found student model: '' @ model_file),
             SpecFromFileLocation name file_path,
             ExecModule name file_path,
             LogError (no_predict_message model_file)], w2)"
proof -
  have "try_body env (student_models_dir lf) model_file (strip3 model_file) w =
          (Inr None, [SpecFromFileLocation name file_path, ExecModule name file_path,
                      LogError (no_predict_message model_file)], w2)"
    using assms(4-8) by (simp add: try_body_def Let_def)
  with load_unfold [OF assms(1,2), of env "Inr None" _ w2] assms(3) show ?thesis
    by simp
qed

theorem missing_entry_point_reported_witness:
  "os_listdir sample_world (student_models_dir loader_file) =
      Inr [''__init__.py'', ''helpers.py'', ''my_model.py'', ''alt.py'']
   \<and> model_files_loop [''__init__.py'', ''helpers.py'', ''my_model.py'', ''alt.py''] [] \<noteq> []
   \<and> spec_from_file_location no_predict_env ''miner_model.student_models.my_model''
        ''/srv/miner_model/student_models/my_model.py''
   \<and> exec_module no_predict_env ''miner_model.student_models.my_model''
        ''/srv/miner_model/student_models/my_model.py''
        (insert_parent_dir (os_path_dirname (student_models_dir loader_file)) sample_world) =
        (Inr [''model'' \<mapsto> 1],
         insert_parent_dir (os_path_dirname (student_models_dir loader_file)) sample_world)
   \<and> [''model'' \<mapsto> 1::nat] ''predict'' = None
   \<and> load_student_model no_predict_env loader_file sample_world =
        (Inr None,
         [LogInfo ''Found student model: my_model.py'',
          SpecFromFileLocation ''miner_model.student_models.my_model''
            ''/srv/miner_model/student_models/my_model.py'',
          ExecModule ''miner_model.student_models.my_model''
            ''/srv/miner_model/student_models/my_model.py'',
          LogError (no_predict_message ''my_model.py'')],
         insert_parent_dir (os_path_dirname (student_models_dir loader_file)) sample_world)"
proof -
  have a: "os_listdir sample_world (student_models_dir loader_file) =
      Inr [''__init__.py'', ''helpers.py'', ''my_model.py'', ''alt.py'']"
    by code_simp
  have b: "model_files_loop [''__init__.py'', ''helpers.py'', ''my_model.py'', ''alt.py''] [] =
      [''my_model.py'', ''alt.py'']"
    by code_simp
  have b': "model_files_loop [''__init__.py'', ''helpers.py'', ''my_model.py'', ''alt.py''] [] \<noteq> []"
    unfolding b by simp
  have c: "''my_model.py'' = model_files_loop [''__init__.py'', ''helpers.py'', ''my_model.py'', ''alt.py''] [] ! 0"
    unfolding b by simp
  have d: "''miner_model.student_models.my_model'' = ''miner_model.student_models.'' @ strip3 ''my_model.py''"
    by (simp add: strip3_def)
  have e: "''/srv/miner_model/student_models/my_model.py'' =
      os_path_join (student_models_dir loader_file) ''my_model.py''"
    by (simp add: sample_student_models_dir os_path_join_def)
  have f: "spec_from_file_location no_predict_env ''miner_model.student_models.my_model''
        ''/srv/miner_model/student_models/my_model.py''"
    by (simp add: no_predict_env_def sample_env_def)
  have g: "exec_module no_predict_env ''miner_model.student_models.my_model''
        ''/srv/miner_model/student_models/my_model.py''
        (insert_parent_dir (os_path_dirname (student_models_dir loader_file)) sample_world) =
        (Inr [''model'' \<mapsto> 1],
         insert_parent_dir (os_path_dirname (student_models_dir loader_file)) sample_world)"
    by (simp add: no_predict_env_def sample_env_def)
  have h: "[''model'' \<mapsto> 1::nat] ''predict'' = None"
    by simp
  from missing_entry_point_reported [OF a b' c d e f g h] a b' f g h show ?thesis
    by simp
qed


lemma try_body_world:
  "snd (snd (try_body env d f m w)) =
     (if spec_from_file_location env (''miner_model.student_models.'' @ m) (os_path_join d f)
      then snd (exec_module env (''miner_model.student_models.'' @ m) (os_path_join d f)
                  (insert_parent_dir (os_path_dirname d) w))
      else w)"
  by (auto simp: try_body_def Let_def split: prod.splits sum.splits option.splits)

lemma try_body_exec_event:
  "ExecModule n p \<in> set (fst (snd (try_body env d f m w))) \<longleftrightarrow>
     spec_from_file_location env (''miner_model.student_models.'' @ m) (os_path_join d f)
     \<and> n = ''miner_model.student_models.'' @ m \<and> p = os_path_join d f"
  by (auto simp: try_body_def Let_def split: prod.splits sum.splits option.splits)

lemma load_world:
  "snd (snd (load_student_model env lf w)) =
     (case os_listdir w (student_models_dir lf) of
        Inl e \<Rightarrow> w
      | Inr listing \<Rightarrow>
          if model_files_loop listing [] = [] then w
          else snd (snd (try_body env (student_models_dir lf) (model_files_loop listing [] ! 0)
                           (strip3 (model_files_loop listing [] ! 0)) w)))"
proof (cases "os_listdir w (student_models_dir lf)")
  case (Inl e)
  then show ?thesis
    by (auto simp: load_student_model_def student_models_dir_def [symmetric] Let_def)
next
  case (Inr listing)
  show ?thesis
  proof (cases "model_files_loop listing [] = []")
    case True
    with Inr show ?thesis
      by (auto simp: load_student_model_def student_models_dir_def [symmetric] Let_def)
  next
    case False
    obtain r evs w' where tb: "try_body env (student_models_dir lf)
        (model_files_loop listing [] ! 0) (strip3 (model_files_loop listing [] ! 0)) w = (r, evs, w')"
      by (metis prod_cases3)
    from load_unfold [OF Inr False tb] Inr False tb show ?thesis
      by (auto split: sum.splits)
  qed
qed

lemma load_exec_event:
  "ExecModule n p \<in> set (fst (snd (load_student_model env lf w))) \<longleftrightarrow>
     (\<exists>listing. os_listdir w (student_models_dir lf) = Inr listing
        \<and> model_files_loop listing [] \<noteq> []
        \<and> ExecModule n p \<in> set (fst (snd (try_body env (student_models_dir lf)
              (model_files_loop listing [] ! 0) (strip3 (model_files_loop listing [] ! 0)) w))))"
proof (cases "os_listdir w (student_models_dir lf)")
  case (Inl e)
  then show ?thesis
    by (auto simp: load_student_model_def student_models_dir_def [symmetric] Let_def)
next
  case (Inr listing)
  show ?thesis
  proof (cases "model_files_loop listing [] = []")
    case True
    with Inr show ?thesis
      by (auto simp: load_student_model_def student_models_dir_def [symmetric] Let_def)
  next
    case False
    obtain r evs w' where tb: "try_body env (student_models_dir lf)
        (model_files_loop listing [] ! 0) (strip3 (model_files_loop listing [] ! 0)) w = (r, evs, w')"
      by (metis prod_cases3)
    from load_unfold [OF Inr False tb] Inr False tb show ?thesis
      by (auto split: sum.splits)
  qed
qed

text \<open>
  The insertion belongs to the load step. A call that returns before it, here because the
  directory holds no candidate, leaves the search path without the parent directory.
\<close>

theorem parent_not_inserted_without_candidate:
  "os_path_dirname (student_models_dir loader_file) \<notin> set (sys_path reserved_only_world)
   \<and> os_path_dirname (student_models_dir loader_file)
        \<notin> set (sys_path (snd (snd (load_student_model sample_env loader_file reserved_only_world))))"
  by code_simp

text \<open>
  C9, as the code has it. A run that executes the selected module first puts the parent of
  the student\_models directory at the front of the module search path, unless it is there
  already, changing nothing else, and hands that state to the module's code; the state the
  call leaves is the state that code left, whether it completed or raised, so the loader
  itself neither undoes the insertion nor touches any other global state. A run that does
  not execute a module leaves the global state as it found it.
\<close>

theorem loader_effect_on_global_state:
  "(\<forall>name file_path.
       ExecModule name file_path \<in> set (fst (snd (load_student_model env lf w))) \<longrightarrow>
       snd (snd (load_student_model env lf w)) =
         snd (exec_module env name file_path
                (insert_parent_dir (os_path_dirname (student_models_dir lf)) w)))
   \<and> ((\<forall>name file_path.
          ExecModule name file_path \<notin> set (fst (snd (load_student_model env lf w)))) \<longrightarrow>
       snd (snd (load_student_model env lf w)) = w)
   \<and> sys_path (insert_parent_dir (os_path_dirname (student_models_dir lf)) w) =
       (if os_path_dirname (student_models_dir lf) \<in> set (sys_path w) then sys_path w
        else os_path_dirname (student_models_dir lf) # sys_path w)
   \<and> fs (insert_parent_dir (os_path_dirname (student_models_dir lf)) w) = fs w
   \<and> other (insert_parent_dir (os_path_dirname (student_models_dir lf)) w) = other w"
proof (intro conjI allI impI)
  fix name file_path
  assume "ExecModule name file_path \<in> set (fst (snd (load_student_model env lf w)))"
  then obtain listing where l: "os_listdir w (student_models_dir lf) = Inr listing"
    and ne: "model_files_loop listing [] \<noteq> []"
    and ev: "ExecModule name file_path \<in> set (fst (snd (try_body env (student_models_dir lf)
              (model_files_loop listing [] ! 0) (strip3 (model_files_loop listing [] ! 0)) w)))"
    unfolding load_exec_event by blast
  from ev show "snd (snd (load_student_model env lf w)) =
         snd (exec_module env name file_path
                (insert_parent_dir (os_path_dirname (student_models_dir lf)) w))"
    unfolding try_body_exec_event by (simp add: load_world l ne try_body_world)
next
  assume none: "\<forall>name file_path.
          ExecModule name file_path \<notin> set (fst (snd (load_student_model env lf w)))"
  show "snd (snd (load_student_model env lf w)) = w"
  proof (cases "os_listdir w (student_models_dir lf)")
    case (Inl e)
    then show ?thesis by (simp add: load_world)
  next
    case (Inr listing)
    show ?thesis
    proof (cases "model_files_loop listing [] = []")
      case True
      with Inr show ?thesis by (simp add: load_world)
    next
      case False
      with none Inr have "\<not> spec_from_file_location env
          (''miner_model.student_models.'' @ strip3 (model_files_loop listing [] ! 0))
          (os_path_join (student_models_dir lf) (model_files_loop listing [] ! 0))"
        by (auto simp: load_exec_event try_body_exec_event)
      with Inr False show ?thesis
        by (simp add: load_world try_body_world)
    qed
  qed
qed (simp_all add: insert_parent_dir_def)

theorem loader_effect_on_global_state_witness:
  "ExecModule ''miner_model.student_models.my_model'' ''/srv/miner_model/student_models/my_model.py''
     \<in> set (fst (snd (load_student_model failing_env loader_file sample_world)))
   \<and> fst (load_student_model failing_env loader_file sample_world) = Inr None
   \<and> snd (snd (load_student_model failing_env loader_file sample_world)) =
       insert_parent_dir (os_path_dirname (student_models_dir loader_file)) sample_world
   \<and> sys_path (snd (snd (load_student_model failing_env loader_file sample_world))) =
       [''/srv/miner_model'', ''/usr/lib/python3'']
   \<and> (\<forall>name file_path. ExecModule name file_path
         \<notin> set (fst (snd (load_student_model sample_env loader_file reserved_only_world))))
   \<and> snd (snd (load_student_model sample_env loader_file reserved_only_world)) = reserved_only_world"
proof -
  have a: "ExecModule ''miner_model.student_models.my_model'' ''/srv/miner_model/student_models/my_model.py''
     \<in> set (fst (snd (load_student_model failing_env loader_file sample_world)))"
    by code_simp
  have b: "fst (load_student_model failing_env loader_file sample_world) = Inr None"
    by code_simp
  have "fst (snd (load_student_model sample_env loader_file reserved_only_world)) =
          [LogError no_student_model_message]"
    by code_simp
  then have c: "\<forall>name file_path. ExecModule name file_path
         \<notin> set (fst (snd (load_student_model sample_env loader_file reserved_only_world)))"
    by simp
  note t1 = loader_effect_on_global_state [of failing_env loader_file sample_world]
  note t2 = loader_effect_on_global_state [of sample_env loader_file reserved_only_world]
  from t1 a have d: "snd (snd (load_student_model failing_env loader_file sample_world)) =
       insert_parent_dir (os_path_dirname (student_models_dir loader_file)) sample_world"
    by (auto simp: failing_env_def sample_env_def)
  from t1 have "sys_path (insert_parent_dir (os_path_dirname (student_models_dir loader_file)) sample_world) =
       (if os_path_dirname (student_models_dir loader_file) \<in> set (sys_path sample_world)
        then sys_path sample_world
        else os_path_dirname (student_models_dir loader_file) # sys_path sample_world)"
    by blast
  then have e: "sys_path (snd (snd (load_student_model failing_env loader_file sample_world))) =
       [''/srv/miner_model'', ''/usr/lib/python3'']"
    unfolding d by (simp add: sample_student_models_dir os_path_dirname_def sample_world_def)
  from t2 c have f: "snd (snd (load_student_model sample_env loader_file reserved_only_world)) =
      reserved_only_world"
    by blast
  from a b c d e f show ?thesis by blast
qed

lemma data_path_Inr:
  assumes "data_path lm mf w = Inr p"
  shows "csv_files mf w \<noteq> [] \<and> p = csv_files mf w ! 0
         \<and> (\<exists>path model. model_path mf w = Inr path \<and> lm path = Inr model)"
  using assms by (auto simp: data_path_def split: sum.splits if_splits)

lemma data_path_reached:
  assumes "model_path mf w = Inr path" and "lm path = Inr model"
  shows "data_path lm mf w =
           (if csv_files mf w = []
            then Inl (FileNotFoundError (no_csv_message (miner_model_dir mf)))
            else Inr (csv_files mf w ! 0))"
  using assms by (simp add: data_path_def)

text \<open>
  C1, as the code has it. A file selected as the model artifact or as the data artifact lies
  in a directory whose path, as the walk reports it, does not contain the marker
  \<^verbatim>\<open>LSTM_outside_example\<close>. When every \<^verbatim>\<open>.h5\<close> file lies in a directory whose path
  contains the marker, even if such a file is the only candidate, the module raises
  \<open>FileNotFoundError\<close> in section 1 and selects neither artifact. When every \<^verbatim>\<open>.csv\<close>
  file lies in such a directory, no data file is selected: the module raises, and what it
  raises is the \<open>FileNotFoundError\<close> of section 2 whenever section 1 and the loading of the
  model completed.
\<close>

theorem excluded_directories_never_selected:
  "(\<forall>p. model_path mf w = Inr p \<longrightarrow>
       (\<exists>root_dir dirs files f. (root_dir, dirs, files) \<in> set (os_walk w (miner_model_dir mf))
          \<and> f \<in> set files \<and> endswith f ''.h5'' \<and> \<not> str_in exclusion_marker root_dir
          \<and> p = os_path_join root_dir f))
   \<and> (\<forall>p. data_path lm mf w = Inr p \<longrightarrow>
       (\<exists>root_dir dirs files f. (root_dir, dirs, files) \<in> set (os_walk w (miner_model_dir mf))
          \<and> f \<in> set files \<and> endswith f ''.csv'' \<and> \<not> str_in exclusion_marker root_dir
          \<and> p = os_path_join root_dir f))
   \<and> ((\<forall>(root_dir, dirs, files) \<in> set (os_walk w (miner_model_dir mf)).
          \<forall>f \<in> set files. endswith f ''.h5'' \<longrightarrow> str_in exclusion_marker root_dir) \<longrightarrow>
       model_path mf w = Inl (FileNotFoundError (no_h5_message (miner_model_dir mf)))
       \<and> data_path lm mf w = Inl (FileNotFoundError (no_h5_message (miner_model_dir mf))))
   \<and> ((\<forall>(root_dir, dirs, files) \<in> set (os_walk w (miner_model_dir mf)).
          \<forall>f \<in> set files. endswith f ''.csv'' \<longrightarrow> str_in exclusion_marker root_dir) \<longrightarrow>
       (\<exists>e. data_path lm mf w = Inl e)
       \<and> (\<forall>path model. model_path mf w = Inr path \<and> lm path = Inr model \<longrightarrow>
             data_path lm mf w = Inl (FileNotFoundError (no_csv_message (miner_model_dir mf)))))"
proof (intro conjI allI impI)
  fix p assume "model_path mf w = Inr p"
  then have "model_files mf w \<noteq> []" and "p = model_files mf w ! 0"
    by (auto simp: model_path_def split: if_splits)
  then have "p \<in> set (walk_loop ''.h5'' (os_walk w (miner_model_dir mf)) [])"
    by (simp add: model_files_def)
  then show "\<exists>root_dir dirs files f. (root_dir, dirs, files) \<in> set (os_walk w (miner_model_dir mf))
          \<and> f \<in> set files \<and> endswith f ''.h5'' \<and> \<not> str_in exclusion_marker root_dir
          \<and> p = os_path_join root_dir f"
    by (rule walk_loop_member)
next
  fix p assume "data_path lm mf w = Inr p"
  from data_path_Inr [OF this] have "csv_files mf w \<noteq> []" and "p = csv_files mf w ! 0"
    by simp_all
  then have "p \<in> set (walk_loop ''.csv'' (os_walk w (miner_model_dir mf)) [])"
    by (simp add: csv_files_def)
  then show "\<exists>root_dir dirs files f. (root_dir, dirs, files) \<in> set (os_walk w (miner_model_dir mf))
          \<and> f \<in> set files \<and> endswith f ''.csv'' \<and> \<not> str_in exclusion_marker root_dir
          \<and> p = os_path_join root_dir f"
    by (rule walk_loop_member)
next
  assume a: "\<forall>(root_dir, dirs, files) \<in> set (os_walk w (miner_model_dir mf)).
          \<forall>f \<in> set files. endswith f ''.h5'' \<longrightarrow> str_in exclusion_marker root_dir"
  then have "model_files mf w = []"
    unfolding model_files_def by (rule walk_loop_all_excluded)
  then show m: "model_path mf w = Inl (FileNotFoundError (no_h5_message (miner_model_dir mf)))"
    by (simp add: model_path_def)
  then show "data_path lm mf w = Inl (FileNotFoundError (no_h5_message (miner_model_dir mf)))"
    by (simp add: data_path_def)
next
  assume "\<forall>(root_dir, dirs, files) \<in> set (os_walk w (miner_model_dir mf)).
          \<forall>f \<in> set files. endswith f ''.csv'' \<longrightarrow> str_in exclusion_marker root_dir"
  then have c: "csv_files mf w = []"
    unfolding csv_files_def by (rule walk_loop_all_excluded)
  then show "\<exists>e. data_path lm mf w = Inl e"
    by (auto simp: data_path_def split: sum.splits)
  fix path model assume "model_path mf w = Inr path \<and> lm path = Inr model"
  with c show "data_path lm mf w = Inl (FileNotFoundError (no_csv_message (miner_model_dir mf)))"
    by (simp add: data_path_reached)
qed

theorem excluded_directories_never_selected_witness:
  "model_path my_model_file sample_world = Inr ''/srv/miner_model/modelA.h5''
   \<and> data_path keras_ok my_model_file sample_world = Inr ''/srv/miner_model/data.csv''
   \<and> (\<exists>root_dir dirs files f.
         (root_dir, dirs, files) \<in> set (os_walk sample_world (miner_model_dir my_model_file))
          \<and> f \<in> set files \<and> \<not> str_in exclusion_marker root_dir
          \<and> ''/srv/miner_model/data.csv'' = os_path_join root_dir f)
   \<and> os_walk excluded_only_world (miner_model_dir my_model_file) =
        [(''/srv/miner_model'', [''LSTM_outside_example'', ''student_models''], []),
         (''/srv/miner_model/LSTM_outside_example'', [], [''lstm_model.h5'', ''prices.csv'']),
         (''/srv/miner_model/student_models'', [],
          [''__init__.py'', ''helpers.py'', ''my_model.py'', ''alt.py''])]
   \<and> model_path my_model_file excluded_only_world =
        Inl (FileNotFoundError (no_h5_message ''/srv/miner_model''))
   \<and> data_path keras_ok my_model_file excluded_only_world =
        Inl (FileNotFoundError (no_h5_message ''/srv/miner_model''))
   \<and> os_walk csv_excluded_world (miner_model_dir my_model_file) =
        [(''/srv/miner_model'', [''LSTM_outside_example''], [''modelA.h5'']),
         (''/srv/miner_model/LSTM_outside_example'', [], [''lstm_model.h5'', ''prices.csv''])]
   \<and> model_path my_model_file csv_excluded_world = Inr ''/srv/miner_model/modelA.h5''
   \<and> data_path keras_ok my_model_file csv_excluded_world =
        Inl (FileNotFoundError (no_csv_message ''/srv/miner_model''))"
proof -
  note t1 = excluded_directories_never_selected [of my_model_file sample_world keras_ok]
  note t2 = excluded_directories_never_selected [of my_model_file excluded_only_world keras_ok]
  note t3 = excluded_directories_never_selected [of my_model_file csv_excluded_world keras_ok]
  have a: "model_path my_model_file sample_world = Inr ''/srv/miner_model/modelA.h5''"
    by code_simp
  have b: "data_path keras_ok my_model_file sample_world = Inr ''/srv/miner_model/data.csv''"
    by code_simp
  have c: "\<forall>(root_dir, dirs, files) \<in> set (os_walk excluded_only_world (miner_model_dir my_model_file)).
          \<forall>f \<in> set files. endswith f ''.h5'' \<longrightarrow> str_in exclusion_marker root_dir"
    by code_simp
  have d: "\<forall>(root_dir, dirs, files) \<in> set (os_walk csv_excluded_world (miner_model_dir my_model_file)).
          \<forall>f \<in> set files. endswith f ''.csv'' \<longrightarrow> str_in exclusion_marker root_dir"
    by code_simp
  have m: "model_path my_model_file csv_excluded_world = Inr ''/srv/miner_model/modelA.h5''"
    by code_simp
  have k: "keras_ok ''/srv/miner_model/modelA.h5'' = Inr ()"
    by (simp add: keras_ok_def)
  from t1 [THEN conjunct2, THEN conjunct1, rule_format, OF b]
  have e: "\<exists>root_dir dirs files f.
         (root_dir, dirs, files) \<in> set (os_walk sample_world (miner_model_dir my_model_file))
          \<and> f \<in> set files \<and> \<not> str_in exclusion_marker root_dir
          \<and> ''/srv/miner_model/data.csv'' = os_path_join root_dir f"
    by blast
  note fg = t2 [THEN conjunct2, THEN conjunct2, THEN conjunct1, THEN mp, OF c,
      unfolded sample_miner_model_dir]
  note h0 = t3 [THEN conjunct2, THEN conjunct2, THEN conjunct2, THEN mp, OF d]
  note h = h0 [THEN conjunct2, THEN spec, THEN spec, THEN mp, OF conjI [OF m k],
      unfolded sample_miner_model_dir]
  have i: "os_walk excluded_only_world (miner_model_dir my_model_file) =
        [(''/srv/miner_model'', [''LSTM_outside_example'', ''student_models''], []),
         (''/srv/miner_model/LSTM_outside_example'', [], [''lstm_model.h5'', ''prices.csv'']),
         (''/srv/miner_model/student_models'', [],
          [''__init__.py'', ''helpers.py'', ''my_model.py'', ''alt.py''])]"
    by code_simp
  have j: "os_walk csv_excluded_world (miner_model_dir my_model_file) =
        [(''/srv/miner_model'', [''LSTM_outside_example''], [''modelA.h5'']),
         (''/srv/miner_model/LSTM_outside_example'', [], [''lstm_model.h5'', ''prices.csv''])]"
    by code_simp
  show ?thesis
    by (intro conjI) (rule a b e i j m h fg [THEN conjunct1] fg [THEN conjunct2])+
qed

text \<open>
  C7. Within each kind of artifact the first match of the enumeration wins, and at most one
  is selected. The candidate lists of my\_model.py are the files with the extension in the
  directories that are not excluded, in the order of the walk. The model path is element 0
  of its list; a data path, when the module gets to bind one, is element 0 of its list, and
  the module binds it whenever section 1 and the loading of the model completed and the list
  is not empty. The candidate list of \<open>load_student_model\<close> is the listing filtered in
  order; the one load it attempts is for element 0, which is the first name of the listing
  that qualifies; no run attempts more than one load.
\<close>

theorem first_match_is_selected:
  "(model_files mf w \<noteq> [] \<longrightarrow> model_path mf w = Inr (model_files mf w ! 0))
   \<and> (\<forall>p. data_path lm mf w = Inr p \<longrightarrow> csv_files mf w \<noteq> [] \<and> p = csv_files mf w ! 0)
   \<and> (\<forall>path model. model_path mf w = Inr path \<and> lm path = Inr model \<and> csv_files mf w \<noteq> [] \<longrightarrow>
         data_path lm mf w = Inr (csv_files mf w ! 0))
   \<and> model_files mf w =
       concat (map (\<lambda>(root_dir, dirs, files).
          if str_in exclusion_marker root_dir then []
          else map (os_path_join root_dir) (filter (\<lambda>f. endswith f ''.h5'') files))
        (os_walk w (miner_model_dir mf)))
   \<and> csv_files mf w =
       concat (map (\<lambda>(root_dir, dirs, files).
          if str_in exclusion_marker root_dir then []
          else map (os_path_join root_dir) (filter (\<lambda>f. endswith f ''.csv'') files))
        (os_walk w (miner_model_dir mf)))
   \<and> (\<forall>listing. os_listdir w (student_models_dir lf) = Inr listing
          \<and> model_files_loop listing [] \<noteq> [] \<longrightarrow>
        attempted_loads (fst (snd (load_student_model env lf w))) =
          [(''miner_model.student_models.'' @ strip3 (model_files_loop listing [] ! 0),
            os_path_join (student_models_dir lf) (model_files_loop listing [] ! 0))]
        \<and> List.find (\<lambda>f. endswith f ''.py'' \<and> f \<notin> set excluded_files) listing =
            Some (model_files_loop listing [] ! 0))
   \<and> length (attempted_loads (fst (snd (load_student_model env lf w)))) \<le> 1"
proof (intro conjI allI impI)
  show "model_files mf w \<noteq> [] \<Longrightarrow> model_path mf w = Inr (model_files mf w ! 0)"
    by (simp add: model_path_def)
  show "model_files mf w =
       concat (map (\<lambda>(root_dir, dirs, files).
          if str_in exclusion_marker root_dir then []
          else map (os_path_join root_dir) (filter (\<lambda>f. endswith f ''.h5'') files))
        (os_walk w (miner_model_dir mf)))"
    by (simp add: model_files_def walk_loop_eq)
  show "csv_files mf w =
       concat (map (\<lambda>(root_dir, dirs, files).
          if str_in exclusion_marker root_dir then []
          else map (os_path_join root_dir) (filter (\<lambda>f. endswith f ''.csv'') files))
        (os_walk w (miner_model_dir mf)))"
    by (simp add: csv_files_def walk_loop_eq)
  show "length (attempted_loads (fst (snd (load_student_model env lf w)))) \<le> 1"
    by (rule load_attempted_length)
next
  fix p assume "data_path lm mf w = Inr p"
  from data_path_Inr [OF this] show "csv_files mf w \<noteq> []" and "p = csv_files mf w ! 0"
    by simp_all
next
  fix path model
  assume "model_path mf w = Inr path \<and> lm path = Inr model \<and> csv_files mf w \<noteq> []"
  then show "data_path lm mf w = Inr (csv_files mf w ! 0)"
    by (simp add: data_path_reached)
next
  fix listing
  assume a: "os_listdir w (student_models_dir lf) = Inr listing
          \<and> model_files_loop listing [] \<noteq> []"
  then show "attempted_loads (fst (snd (load_student_model env lf w))) =
          [(''miner_model.student_models.'' @ strip3 (model_files_loop listing [] ! 0),
            os_path_join (student_models_dir lf) (model_files_loop listing [] ! 0))]"
    by (simp add: load_attempted)
  from a show "List.find (\<lambda>f. endswith f ''.py'' \<and> f \<notin> set excluded_files) listing =
            Some (model_files_loop listing [] ! 0)"
    using find_first_of_filter [of "\<lambda>f. endswith f ''.py'' \<and> f \<notin> set excluded_files" listing]
    by (simp add: model_files_loop_eq)
qed

theorem first_match_is_selected_witness:
  "model_files my_model_file sample_world =
      [''/srv/miner_model/modelA.h5'', ''/srv/miner_model/backup/old_model.h5'']
   \<and> model_path my_model_file sample_world = Inr ''/srv/miner_model/modelA.h5''
   \<and> keras_ok ''/srv/miner_model/modelA.h5'' = Inr ()
   \<and> csv_files my_model_file sample_world =
      [''/srv/miner_model/data.csv'', ''/srv/miner_model/backup/old_data.csv'']
   \<and> data_path keras_ok my_model_file sample_world = Inr ''/srv/miner_model/data.csv''
   \<and> os_listdir sample_world (student_models_dir loader_file) =
        Inr [''__init__.py'', ''helpers.py'', ''my_model.py'', ''alt.py'']
   \<and> model_files_loop [''__init__.py'', ''helpers.py'', ''my_model.py'', ''alt.py''] [] =
        [''my_model.py'', ''alt.py'']
   \<and> attempted_loads (fst (snd (load_student_model sample_env loader_file sample_world))) =
        [(''miner_model.student_models.my_model'', ''/srv/miner_model/student_models/my_model.py'')]"
proof -
  note t = first_match_is_selected [of my_model_file sample_world keras_ok loader_file sample_env]
  have a: "model_files my_model_file sample_world =
      [''/srv/miner_model/modelA.h5'', ''/srv/miner_model/backup/old_model.h5'']"
    by code_simp
  have b: "csv_files my_model_file sample_world =
      [''/srv/miner_model/data.csv'', ''/srv/miner_model/backup/old_data.csv'']"
    by code_simp
  have c: "os_listdir sample_world (student_models_dir loader_file) =
        Inr [''__init__.py'', ''helpers.py'', ''my_model.py'', ''alt.py'']"
    by code_simp
  have d: "model_files_loop [''__init__.py'', ''helpers.py'', ''my_model.py'', ''alt.py''] [] =
        [''my_model.py'', ''alt.py'']"
    by code_simp
  have e: "strip3 ''my_model.py'' = ''my_model''"
    "os_path_join (student_models_dir loader_file) ''my_model.py'' =
       ''/srv/miner_model/student_models/my_model.py''"
    by code_simp+
  have k: "keras_ok ''/srv/miner_model/modelA.h5'' = Inr ()"
    by (simp add: keras_ok_def)
  have "model_files my_model_file sample_world \<noteq> []"
    unfolding a by simp
  from t [THEN conjunct1, rule_format, OF this]
  have m: "model_path my_model_file sample_world = Inr ''/srv/miner_model/modelA.h5''"
    unfolding a by simp
  have "csv_files my_model_file sample_world \<noteq> []"
    unfolding b by simp
  with m k t [THEN conjunct2, THEN conjunct2, THEN conjunct1, rule_format,
      of "''/srv/miner_model/modelA.h5''" "()"]
  have "data_path keras_ok my_model_file sample_world = Inr (csv_files my_model_file sample_world ! 0)"
    by (simp only: simp_thms)
  then have p: "data_path keras_ok my_model_file sample_world = Inr ''/srv/miner_model/data.csv''"
    unfolding b by simp
  have "model_files_loop [''__init__.py'', ''helpers.py'', ''my_model.py'', ''alt.py''] [] \<noteq> []"
    unfolding d by simp
  with c t [THEN conjunct2, THEN conjunct2, THEN conjunct2, THEN conjunct2, THEN conjunct2,
      THEN conjunct1, rule_format, of "[''__init__.py'', ''helpers.py'', ''my_model.py'', ''alt.py'']"]
  have "attempted_loads (fst (snd (load_student_model sample_env loader_file sample_world))) =
          [(''miner_model.student_models.'' @ strip3
              (model_files_loop [''__init__.py'', ''helpers.py'', ''my_model.py'', ''alt.py''] [] ! 0),
            os_path_join (student_models_dir loader_file)
              (model_files_loop [''__init__.py'', ''helpers.py'', ''my_model.py'', ''alt.py''] [] ! 0))]"
    by (simp only: simp_thms)
  then have q: "attempted_loads (fst (snd (load_student_model sample_env loader_file sample_world))) =
        [(''miner_model.student_models.my_model'', ''/srv/miner_model/student_models/my_model.py'')]"
    unfolding d by (simp add: e)
  show ?thesis
    by (intro conjI) (rule a b c d k m p q)+
qed
























end
